theory Spec2Isabelle
  imports Complex_Main
begin

section \<open>Python values used by the program\<close>

text \<open>
  Paths and file names are Python \<open>str\<close>, file contents are byte buffers. Exceptions are
  values: the class and the text that \<open>str(e)\<close> gives. Every class below is a subclass
  of Python's \<open>Exception\<close>, so every \<open>except Exception\<close> of the source catches all of
  them.
\<close>

type_synonym path = string
type_synonym bytes = "nat list"

datatype exn_class = FileNotFoundError | IndexError | FileExistsError | PlainException | LibraryError

datatype exn = Exn exn_class string

fun str_exn :: "exn \<Rightarrow> string" where
  "str_exn (Exn c m) = m"

fun class_of :: "exn \<Rightarrow> exn_class" where
  "class_of (Exn c m) = c"

subsection \<open>String operations\<close>

text \<open>
  \<open>str.lower()\<close> on the ASCII letters; every other character is left as it is.
  Characters are bytes here, and the case mapping of characters outside ASCII is not
  modelled; the allowed extensions are ASCII.
\<close>

definition lower_char :: "char \<Rightarrow> char" where
  "lower_char c =
     (case map_of (zip ''ABCDEFGHIJKLMNOPQRSTUVWXYZ'' ''abcdefghijklmnopqrstuvwxyz'') c of
        Some d \<Rightarrow> d
      | None \<Rightarrow> c)"

definition lower :: "string \<Rightarrow> string" where
  "lower s = map lower_char s"

text \<open>
  \<open>s.split(sep)\<close> for a one-character separator: the pieces between the separators, never
  an empty list.
\<close>

fun str_split :: "string \<Rightarrow> char \<Rightarrow> string list" where
  "str_split [] sep = [[]]"
| "str_split (c # cs) sep =
     (if c = sep then [] # str_split cs sep
      else (case str_split cs sep of
              [] \<Rightarrow> [[c]]
            | piece # pieces \<Rightarrow> (c # piece) # pieces))"

text \<open>
  \<open>s.rsplit(sep, 1)\<close>: one split, at the last separator; the whole string when there is
  none.
\<close>

definition str_rsplit1 :: "string \<Rightarrow> char \<Rightarrow> string list" where
  "str_rsplit1 s sep =
     (if sep \<in> set s
      then [rev (tl (dropWhile (\<lambda>c. c \<noteq> sep) (rev s))), rev (takeWhile (\<lambda>c. c \<noteq> sep) (rev s))]
      else [s])"

text \<open>
  \<open>xs[i]\<close>: a negative index counts from the end, an index out of range raises
  \<open>IndexError\<close>.
\<close>

definition py_index :: "'a list \<Rightarrow> int \<Rightarrow> exn + 'a" where
  "py_index xs i =
     (let k = (if i < 0 then i + int (length xs) else i)
      in if k < 0 \<or> int (length xs) \<le> k then Inl (Exn IndexError ''list index out of range'')
         else Inr (xs ! nat k))"

text \<open>\<open>sep.join(xs)\<close>.\<close>

fun join :: "string \<Rightarrow> string list \<Rightarrow> string" where
  "join sep [] = []"
| "join sep [x] = x"
| "join sep (x # y # ys) = x @ sep @ join sep (y # ys)"

section \<open>Validators\<close>

definition ALLOWED_EXTENSIONS :: "string set" where
  "ALLOWED_EXTENSIONS = {''png'', ''jpg'', ''jpeg'', ''gif'', ''bmp'', ''tiff'', ''webp''}"

text \<open>
  \<open>allowed_file\<close> of \<open>main.py\<close>. The \<open>and\<close> evaluates its right operand only when the
  file name has a dot.
\<close>

definition allowed_file :: "string \<Rightarrow> exn + bool" where
  "allowed_file filename =
     (if CHR ''.'' \<in> set filename
      then (case py_index (str_rsplit1 filename (CHR ''.'')) 1 of
              Inl e \<Rightarrow> Inl e
            | Inr ext \<Rightarrow> Inr (lower ext \<in> ALLOWED_EXTENSIONS))
      else Inr False)"

text \<open>
  \<open>is_valid_image_extension\<close> of \<open>app.py\<close>. The argument is \<open>None\<close> or a string;
  \<open>not filename\<close> holds for \<open>None\<close> and for the empty string.
\<close>

definition is_valid_image_extension :: "string option \<Rightarrow> exn + bool" where
  "is_valid_image_extension filename =
     (case filename of
        None \<Rightarrow> Inr False
      | Some name \<Rightarrow>
          if name = [] then Inr False
          else (case py_index (str_split name (CHR ''.'')) (- 1) of
                  Inl e \<Rightarrow> Inl e
                | Inr extension \<Rightarrow> Inr (lower extension \<in> ALLOWED_EXTENSIONS)))"

text \<open>
  The rule of the specification, in its words: the file name contains a dot, and the
  suffix after the last dot, lower-cased, is one of the allowed extensions.
\<close>

definition hasAllowedExtension_spec :: "string \<Rightarrow> bool" where
  "hasAllowedExtension_spec filename =
     (CHR ''.'' \<in> set filename \<and>
      lower (rev (takeWhile (\<lambda>c. c \<noteq> CHR ''.'') (rev filename))) \<in> ALLOWED_EXTENSIONS)"

section \<open>Numbers\<close>

text \<open>
  Python floats are taken as exact reals. \<open>round(x, n)\<close> rounds to \<open>n\<close> decimals, a tie
  going to the even neighbour.
\<close>

definition round_half_even :: "real \<Rightarrow> int" where
  "round_half_even x =
     (let f = \<lfloor>x\<rfloor>; d = x - of_int f
      in if d < 1 / 2 then f else if 1 / 2 < d then f + 1 else if even f then f else f + 1)"

definition py_round :: "real \<Rightarrow> nat \<Rightarrow> real" where
  "py_round x n = of_int (round_half_even (x * 10 ^ n)) / 10 ^ n"

section \<open>Exceptions in the control flow\<close>

definition and_then :: "exn + 'a \<Rightarrow> ('a \<Rightarrow> exn + 'b) \<Rightarrow> exn + 'b" where
  "and_then r k = (case r of Inl e \<Rightarrow> Inl e | Inr v \<Rightarrow> k v)"

text \<open>\<open>try: body  except Exception as e: handler(e)\<close>\<close>

definition try_except :: "exn + 'a \<Rightarrow> (exn \<Rightarrow> exn + 'a) \<Rightarrow> exn + 'a" where
  "try_except body handler = (case body of Inl e \<Rightarrow> handler e | Inr v \<Rightarrow> Inr v)"

section \<open>The libraries and the file system\<close>

text \<open>
  The image libraries are outside the repository; the program is modelled over whatever they
  compute. \<open>PIL_open\<close> is \<open>Image.open\<close> on a file's content and \<open>PIL_verify\<close> is
  \<open>img.verify()\<close>; \<open>cv2_decode\<close> is the decoding done by
  \<open>cv2.imread(_, IMREAD_GRAYSCALE)\<close>, which gives \<open>None\<close> instead of raising;
  \<open>Laplacian_var\<close> is \<open>cv2.Laplacian(image, CV_64F).var()\<close>; \<open>rembg_remove\<close> is
  \<open>rembg.remove\<close>; \<open>secure_filename\<close> is werkzeug's. \<open>extensions_order\<close> is the order
  in which the process iterates over the set \<open>ALLOWED_EXTENSIONS\<close>.
\<close>

record image =
  img_size :: "int \<times> int"
  img_data :: bytes

type_synonym gray = "nat list list"

record env =
  PIL_open :: "bytes \<Rightarrow> exn + image"
  PIL_verify :: "image \<Rightarrow> exn + unit"
  cv2_decode :: "bytes \<Rightarrow> gray option"
  Laplacian_var :: "gray \<Rightarrow> exn + real"
  rembg_remove :: "bytes \<Rightarrow> exn + bytes"
  secure_filename :: "string \<Rightarrow> string"
  extensions_order :: "string list"

type_synonym filesystem = "path \<rightharpoonup> bytes"

definition exists :: "filesystem \<Rightarrow> path \<Rightarrow> bool" where
  "exists fs p = (fs p \<noteq> None)"

definition read_file :: "filesystem \<Rightarrow> path \<Rightarrow> exn + bytes" where
  "read_file fs p =
     (case fs p of
        None \<Rightarrow> Inl (Exn FileNotFoundError (''[Errno 2] No such file or directory: '' @ p))
      | Some b \<Rightarrow> Inr b)"

definition Image_open :: "env \<Rightarrow> filesystem \<Rightarrow> path \<Rightarrow> exn + image" where
  "Image_open env fs p = and_then (read_file fs p) (PIL_open env)"

definition imread :: "env \<Rightarrow> filesystem \<Rightarrow> path \<Rightarrow> gray option" where
  "imread env fs p = (case fs p of None \<Rightarrow> None | Some b \<Rightarrow> cv2_decode env b)"

section \<open>Quality analyzer (models/image\_analyzer.py)\<close>

definition resolution_score :: "env \<Rightarrow> filesystem \<Rightarrow> path \<Rightarrow> exn + real" where
  "resolution_score env fs image_path =
     (if \<not> exists fs image_path
      then Inl (Exn FileNotFoundError (''Image file not found: '' @ image_path))
      else try_except
             (and_then (Image_open env fs image_path) (\<lambda>img.
                let (width, height) = img_size img;
                    total_pixels = width * height;
                    reference_pixels = 256 * 256;
                    score = min (real_of_int total_pixels / real_of_int reference_pixels * 100) 100
                in Inr (py_round score 2)))
             (\<lambda>e. Inl (Exn PlainException (''Failed to analyze resolution: '' @ str_exn e))))"

definition is_blurry :: "env \<Rightarrow> filesystem \<Rightarrow> path \<Rightarrow> real \<Rightarrow> exn + bool" where
  "is_blurry env fs image_path threshold =
     (if \<not> exists fs image_path
      then Inl (Exn FileNotFoundError (''Image file not found: '' @ image_path))
      else try_except
             (case imread env fs image_path of
                None \<Rightarrow> Inl (Exn PlainException ''Could not read image file - may not be a valid image'')
              | Some gray_image \<Rightarrow>
                  and_then (Laplacian_var env gray_image) (\<lambda>laplacian_var.
                    Inr (laplacian_var < threshold)))
             (\<lambda>e. Inl (Exn PlainException (''Failed to analyze blur: '' @ str_exn e))))"

definition blur_score :: "env \<Rightarrow> filesystem \<Rightarrow> path \<Rightarrow> exn + real" where
  "blur_score env fs image_path =
     (if \<not> exists fs image_path
      then Inl (Exn FileNotFoundError (''Image file not found: '' @ image_path))
      else try_except
             (case imread env fs image_path of
                None \<Rightarrow> Inl (Exn PlainException ''Could not read image file - may not be a valid image'')
              | Some gray_image \<Rightarrow>
                  and_then (Laplacian_var env gray_image) (\<lambda>laplacian_var.
                    Inr (py_round laplacian_var 2)))
             (\<lambda>e. Inl (Exn PlainException (''Failed to calculate blur score: '' @ str_exn e))))"

text \<open>The dictionary that \<open>analyze_image_quality\<close> returns has these four keys.\<close>

record analysis =
  r_resolution_score :: real
  r_is_blurry :: bool
  r_blur_score :: real
  r_clarity :: string

definition analyze_image_quality :: "env \<Rightarrow> filesystem \<Rightarrow> path \<Rightarrow> exn + analysis" where
  "analyze_image_quality env fs image_path =
     try_except
       (and_then (Image_open env fs image_path) (\<lambda>img.
        and_then (PIL_verify env img) (\<lambda>_.
        and_then (is_blurry env fs image_path 100) (\<lambda>is_image_blurry.
        and_then (resolution_score env fs image_path) (\<lambda>rs.
        and_then (blur_score env fs image_path) (\<lambda>bs.
          Inr \<lparr> r_resolution_score = rs,
                r_is_blurry = is_image_blurry,
                r_blur_score = bs,
                r_clarity = (if \<not> is_image_blurry then ''Clear'' else ''Blurry'') \<rparr>))))))
       (\<lambda>e. Inl (Exn PlainException (''Image quality analysis failed: '' @ str_exn e)))"

section \<open>Background remover (models/background\_remover.py)\<close>

text \<open>
  The function returns nothing; its effect is the file it writes. The result is the
  exception raised, if any, and the file system afterwards.
\<close>

definition remove_background ::
  "env \<Rightarrow> filesystem \<Rightarrow> path \<Rightarrow> path \<Rightarrow> (exn + unit) \<times> filesystem" where
  "remove_background env fs input_path output_path =
     (if \<not> exists fs input_path
      then (Inl (Exn FileNotFoundError (''Input file not found: '' @ input_path)), fs)
      else (case and_then (read_file fs input_path) (rembg_remove env) of
              Inl e \<Rightarrow> (Inl (Exn PlainException (''Failed to remove background: '' @ str_exn e)), fs)
            | Inr output_bytes \<Rightarrow> (Inr (), fs(output_path \<mapsto> output_bytes))))"

section \<open>Decodability checks\<close>

text \<open>\<open>is_valid_image\<close> of \<open>main.py\<close>, on a path.\<close>

definition is_valid_image :: "env \<Rightarrow> filesystem \<Rightarrow> path \<Rightarrow> exn + bool" where
  "is_valid_image env fs file_path =
     try_except
       (and_then (Image_open env fs file_path) (\<lambda>img.
        and_then (PIL_verify env img) (\<lambda>_. Inr True)))
       (\<lambda>e. Inr False)"

text \<open>\<open>is_valid_image_file\<close> of \<open>app.py\<close>, on the uploaded buffer.\<close>

definition is_valid_image_file :: "env \<Rightarrow> bytes \<Rightarrow> exn + bool" where
  "is_valid_image_file env uploaded_file =
     try_except
       (and_then (PIL_open env uploaded_file) (\<lambda>pil_image.
        and_then (PIL_verify env pil_image) (\<lambda>_. Inr True)))
       (\<lambda>e. Inr False)"

section \<open>Specification-side definitions\<close>

text \<open>
  The resolution score in the words of the specification:
  \<open>min((width*height / (256*256)) * 100, 100)\<close>, rounded to 2 decimals.
\<close>

definition resolutionScore_spec :: "int \<Rightarrow> int \<Rightarrow> real" where
  "resolutionScore_spec width height =
     py_round (min ((real_of_int (width * height) / (256 * 256)) * 100) 100) 2"

text \<open>
  A file passes the decodability check when \<open>Image.open\<close> and then \<open>verify\<close> both
  return without raising.
\<close>

definition verifies :: "env \<Rightarrow> filesystem \<Rightarrow> path \<Rightarrow> bool" where
  "verifies env fs p =
     (case and_then (Image_open env fs p) (PIL_verify env) of Inl e \<Rightarrow> False | Inr u \<Rightarrow> True)"

text \<open>A buffer is decodable when \<open>Image.open\<close> and then \<open>verify\<close> accept it.\<close>

definition decodable :: "env \<Rightarrow> bytes \<Rightarrow> bool" where
  "decodable env b =
     (case and_then (PIL_open env b) (PIL_verify env) of Inl e \<Rightarrow> False | Inr u \<Rightarrow> True)"

text \<open>
  The generic failure of the composed analysis: a plain exception whose message begins
  with \<open>Image quality analysis failed\<close>.
\<close>

definition analysis_failed :: "exn \<Rightarrow> bool" where
  "analysis_failed e =
     (class_of e = PlainException \<and>
      take (length ''Image quality analysis failed'') (str_exn e) = ''Image quality analysis failed'')"

section \<open>A concrete environment for evaluating the program\<close>

text \<open>
  A toy codec: a buffer \<open>[1, w, h, ...]\<close> is an image of \<open>w\<close> by \<open>h\<close> pixels, a zero
  byte in it is a corrupt data stream, and the Laplacian variance of the decoded picture is
  a thousandth of the sum of its remaining bytes. Any other buffer is not an image.
  Background removal appends an alpha byte to an image.
\<close>

definition sample_env :: env where
  "sample_env =
     \<lparr> PIL_open = (\<lambda>b. case b of
                      m # w # h # rest \<Rightarrow>
                        if m = 1 then Inr \<lparr> img_size = (int w, int h), img_data = b \<rparr>
                        else Inl (Exn LibraryError ''cannot identify image file'')
                    | _ \<Rightarrow> Inl (Exn LibraryError ''cannot identify image file'')),
       PIL_verify = (\<lambda>img. if 0 \<in> set (img_data img)
                      then Inl (Exn LibraryError ''broken data stream'') else Inr ()),
       cv2_decode = (\<lambda>b. case b of
                      m # w # h # rest \<Rightarrow> if m = 1 then Some [rest] else None
                    | _ \<Rightarrow> None),
       Laplacian_var = (\<lambda>g. Inr (real (sum_list (concat g)) / 1000)),
       rembg_remove = (\<lambda>b. case b of
                      [] \<Rightarrow> Inl (Exn LibraryError ''cannot identify image file'')
                    | m # rest \<Rightarrow> if m = 1 then Inr (b @ [255])
                        else Inl (Exn LibraryError ''cannot identify image file'')),
       secure_filename = (\<lambda>s. s),
       extensions_order = [''png'', ''jpg'', ''jpeg'', ''gif'', ''bmp'', ''tiff'', ''webp''] \<rparr>"

definition sample_fs :: filesystem where
  "sample_fs = [''a.png'' \<mapsto> [1, 256, 256, 99996], ''b.png'' \<mapsto> [1, 128, 128, 7],
                ''c.png'' \<mapsto> [1, 300, 300, 120000], ''bad.jpg'' \<mapsto> [9, 9, 9],
                ''trunc.jpg'' \<mapsto> [1, 10, 10, 0]]"

section \<open>Request handlers\<close>

text \<open>
  A request carries the uploaded files by form field. The handlers run in a world that
  holds the file system and the names the runtime's temporary-file facility will draw
  next. The world also keeps, in order, the calls a handler has made to \<open>is_valid_image\<close>,
  \<open>analyze_image_quality\<close> and \<open>remove_background\<close>, the only places where a handler of
  the API has a file decoded, so that a property can say that no such call was made.
\<close>

record upload =
  filename :: string
  content :: bytes

record request =
  request_files :: "string \<rightharpoonup> upload"

datatype call = IsValidImage path | AnalyzeImageQuality path | RemoveBackground path path

record world =
  disk :: filesystem
  tmp_names :: "string list"
  calls :: "call list"

definition record_call :: "call \<Rightarrow> world \<Rightarrow> world" where
  "record_call c w = w\<lparr> calls := calls w @ [c] \<rparr>"

text \<open>
  \<open>tempfile.NamedTemporaryFile(delete=False, suffix=...)\<close>: the first drawn name that
  does not exist yet is created as an empty file, which stays after it is closed. Without
  a usable name the call raises.
\<close>

definition NamedTemporaryFile :: "world \<Rightarrow> string \<Rightarrow> (exn + path) \<times> world" where
  "NamedTemporaryFile w suffix =
     (case dropWhile (\<lambda>n. exists (disk w) (n @ suffix)) (tmp_names w) of
        [] \<Rightarrow> (Inl (Exn FileExistsError ''[Errno 17] No usable temporary file name found''),
               w\<lparr> tmp_names := [] \<rparr>)
      | n # rest \<Rightarrow> (Inr (n @ suffix),
                     w\<lparr> disk := (disk w)(n @ suffix \<mapsto> []), tmp_names := rest \<rparr>))"

text \<open>\<open>file.save(path)\<close> and \<open>handle.write(file.read())\<close>: the upload's bytes go to the path.\<close>

definition save :: "upload \<Rightarrow> path \<Rightarrow> world \<Rightarrow> world" where
  "save file p w = w\<lparr> disk := (disk w)(p \<mapsto> content file) \<rparr>"

definition unlink :: "path \<Rightarrow> world \<Rightarrow> world" where
  "unlink p w = w\<lparr> disk := (disk w)(p := None) \<rparr>"

text \<open>\<open>if os.path.exists(p): os.unlink(p)\<close>\<close>

definition unlink_if_exists :: "path \<Rightarrow> world \<Rightarrow> world" where
  "unlink_if_exists p w = (if exists (disk w) p then unlink p w else w)"

subsection \<open>The API (main.py)\<close>

datatype body =
    ErrorJson string "string option"
  | ResultsJson analysis string string
  | Attachment path string string

type_synonym response = "body \<times> nat"

definition invalid_file_type :: "env \<Rightarrow> response" where
  "invalid_file_type env =
     (ErrorJson (''Invalid file type. Allowed types: '' @ join '', '' (extensions_order env)) None,
      400)"

text \<open>The body of the inner \<open>try\<close> of \<open>analyze_image\<close>.\<close>

definition analyze_image_try ::
  "env \<Rightarrow> world \<Rightarrow> upload \<Rightarrow> path \<Rightarrow> (exn + response) \<times> world" where
  "analyze_image_try env w file temp_path =
     (let w1 = record_call (IsValidImage temp_path) w in
      case is_valid_image env (disk w1) temp_path of
        Inl e \<Rightarrow> (Inl e, w1)
      | Inr valid \<Rightarrow>
          if \<not> valid then (Inr (ErrorJson ''File is not a valid image'' None, 400), w1)
          else (let w2 = record_call (AnalyzeImageQuality temp_path) w1 in
                case analyze_image_quality env (disk w2) temp_path of
                  Inl e \<Rightarrow> (Inl e, w2)
                | Inr results \<Rightarrow>
                    (Inr (ResultsJson results (secure_filename env (filename file)) ''success'',
                          200), w2)))"

definition analyze_image :: "env \<Rightarrow> world \<Rightarrow> request \<Rightarrow> response \<times> world" where
  "analyze_image env w request =
     (case request_files request ''image'' of
        None \<Rightarrow> ((ErrorJson ''No image file provided'' None, 400), w)
      | Some file \<Rightarrow>
          if filename file = [] then ((ErrorJson ''No file selected'' None, 400), w)
          else (case allowed_file (filename file) of
                  Inl e \<Rightarrow> ((ErrorJson ''Analysis failed'' (Some (str_exn e)), 500), w)
                | Inr allowed \<Rightarrow>
                    if \<not> allowed then (invalid_file_type env, w)
                    else (case NamedTemporaryFile w ''.jpg'' of
                            (Inl e, w1) \<Rightarrow>
                              ((ErrorJson ''Analysis failed'' (Some (str_exn e)), 500), w1)
                          | (Inr temp_path, w1) \<Rightarrow>
                              (let w2 = save file temp_path w1;
                                   (outcome, w3) = analyze_image_try env w2 file temp_path;
                                   w4 = unlink_if_exists temp_path w3
                               in (case outcome of
                                     Inl e \<Rightarrow>
                                       ((ErrorJson ''Analysis failed'' (Some (str_exn e)), 500), w4)
                                   | Inr response \<Rightarrow> (response, w4))))))"

text \<open>\<open>send_file\<close> opens the file it is given and answers with it; it deletes nothing.\<close>

definition send_file :: "world \<Rightarrow> path \<Rightarrow> string \<Rightarrow> string \<Rightarrow> exn + response" where
  "send_file w p download_name mimetype =
     and_then (read_file (disk w) p) (\<lambda>_. Inr (Attachment p download_name mimetype, 200))"

text \<open>The body of the inner \<open>try\<close> of \<open>remove_bg\<close>.\<close>

definition remove_bg_try ::
  "env \<Rightarrow> world \<Rightarrow> upload \<Rightarrow> path \<Rightarrow> path \<Rightarrow> (exn + response) \<times> world" where
  "remove_bg_try env w file input_temp output_temp =
     (let w1 = save file input_temp w;
          w2 = record_call (IsValidImage input_temp) w1 in
      case is_valid_image env (disk w2) input_temp of
        Inl e \<Rightarrow> (Inl e, w2)
      | Inr valid \<Rightarrow>
          if \<not> valid then (Inr (ErrorJson ''File is not a valid image'' None, 400), w2)
          else (let w3 = record_call (RemoveBackground input_temp output_temp) w2 in
                case remove_background env (disk w3) input_temp output_temp of
                  (Inl e, d) \<Rightarrow> (Inl e, w3\<lparr> disk := d \<rparr>)
                | (Inr _, d) \<Rightarrow>
                    (send_file (w3\<lparr> disk := d \<rparr>) output_temp
                       (''no_bg_'' @ secure_filename env (filename file) @ ''.png'') ''image/png'',
                     w3\<lparr> disk := d \<rparr>)))"

definition remove_bg :: "env \<Rightarrow> world \<Rightarrow> request \<Rightarrow> response \<times> world" where
  "remove_bg env w request =
     (case request_files request ''image'' of
        None \<Rightarrow> ((ErrorJson ''No image file provided'' None, 400), w)
      | Some file \<Rightarrow>
          if filename file = [] then ((ErrorJson ''No file selected'' None, 400), w)
          else (case allowed_file (filename file) of
                  Inl e \<Rightarrow> ((ErrorJson ''Background removal failed'' (Some (str_exn e)), 500), w)
                | Inr allowed \<Rightarrow>
                    if \<not> allowed then (invalid_file_type env, w)
                    else (case NamedTemporaryFile w ''.jpg'' of
                            (Inl e, w1) \<Rightarrow>
                              ((ErrorJson ''Background removal failed'' (Some (str_exn e)), 500), w1)
                          | (Inr input_temp, w1) \<Rightarrow>
                              (case NamedTemporaryFile w1 ''.png'' of
                                 (Inl e, w2) \<Rightarrow>
                                   ((ErrorJson ''Background removal failed'' (Some (str_exn e)), 500),
                                    w2)
                               | (Inr output_temp, w2) \<Rightarrow>
                                   (let (outcome, w3) =
                                          remove_bg_try env w2 file input_temp output_temp;
                                        w4 = unlink_if_exists input_temp w3
                                    in (case outcome of
                                          Inl e \<Rightarrow>
                                            ((ErrorJson ''Background removal failed''
                                                (Some (str_exn e)), 500), w4)
                                        | Inr response \<Rightarrow> (response, w4)))))))"

subsection \<open>The interactive UI (app.py)\<close>

text \<open>
  What \<open>show_background_removal\<close> puts on the page, and its effect on the world, once a
  file has been uploaded: \<open>available\<close> is the flag \<open>BACKGROUND_REMOVAL_AVAILABLE\<close>,
  \<open>pressed\<close> tells whether the button Remove Background was pressed. An exception that
  no \<open>except\<close> clause catches is shown on the page. The expander that shows the traceback
  of a failure is left out.
\<close>

datatype widget =
    St_error string
  | St_info string
  | St_success string
  | St_image image string
  | St_download_button bytes string
  | St_exception exn

text \<open>The body of the inner \<open>try\<close> of \<open>show_background_removal\<close>.\<close>

definition show_background_removal_try ::
  "env \<Rightarrow> world \<Rightarrow> upload \<Rightarrow> path \<Rightarrow> path \<Rightarrow> (exn + widget list) \<times> world" where
  "show_background_removal_try env w uploaded_file input_temp output_temp =
     (let w1 = save uploaded_file input_temp w;
          w2 = record_call (RemoveBackground input_temp output_temp) w1 in
      case remove_background env (disk w2) input_temp output_temp of
        (Inl e, d) \<Rightarrow> (Inl e, w2\<lparr> disk := d \<rparr>)
      | (Inr _, d) \<Rightarrow>
          (and_then (Image_open env d output_temp) (\<lambda>processed_image.
           and_then (read_file d output_temp) (\<lambda>data.
           and_then (py_index (str_split (filename uploaded_file) (CHR ''.'')) 0) (\<lambda>stem.
             Inr [St_image processed_image ''Background Removed'',
                  St_download_button data (''no_bg_'' @ stem @ ''.png''),
                  St_success ''Background removal completed!'']))),
           w2\<lparr> disk := d \<rparr>))"

definition show_background_removal ::
  "env \<Rightarrow> bool \<Rightarrow> world \<Rightarrow> upload \<Rightarrow> bool \<Rightarrow> widget list \<times> world" where
  "show_background_removal env available w uploaded_file pressed =
     (if \<not> available
      then ([St_error ''Background removal is not available due to missing dependencies.''], w)
      else (case is_valid_image_extension (Some (filename uploaded_file)) of
              Inl e \<Rightarrow> ([St_exception e], w)
            | Inr valid_extension \<Rightarrow>
                if \<not> valid_extension
                then ([St_error (''Invalid file type. Allowed types: ''
                                   @ join '', '' (extensions_order env))], w)
                else (case PIL_open env (content uploaded_file) of
                        Inl e \<Rightarrow>
                          ([St_error ''Error loading image. Please make sure it's a valid image file.''],
                           w)
                      | Inr shown \<Rightarrow>
                          if \<not> pressed then ([St_image shown (filename uploaded_file)], w)
                          else (let failed = (\<lambda>e.
                                       [St_image shown (filename uploaded_file),
                                        St_error (''Background removal failed: '' @ str_exn e),
                                        St_error ''Please check that your models are properly configured.'']) in
                                case is_valid_image_file env (content uploaded_file) of
                                  Inl e \<Rightarrow> (failed e, w)
                                | Inr valid \<Rightarrow>
                                    if \<not> valid
                                    then ([St_image shown (filename uploaded_file),
                                           St_error ''File is not a valid image.''], w)
                                    else (case NamedTemporaryFile w ''.jpg'' of
                                            (Inl e, w1) \<Rightarrow> (failed e, w1)
                                          | (Inr input_temp, w1) \<Rightarrow>
                                              (case NamedTemporaryFile w1 ''.png'' of
                                                 (Inl e, w2) \<Rightarrow> (failed e, w2)
                                               | (Inr output_temp, w2) \<Rightarrow>
                                                   (let (outcome, w3) =
                                                          show_background_removal_try env w2
                                                            uploaded_file input_temp output_temp;
                                                        w4 = unlink_if_exists input_temp w3;
                                                        w5 = unlink_if_exists output_temp w4
                                                    in (case outcome of
                                                          Inl e \<Rightarrow> (failed e, w5)
                                                        | Inr shown_result \<Rightarrow>
                                                            (St_image shown (filename uploaded_file)
                                                               # shown_result, w5)))))))))"

text \<open>Three requests, and a world in which to run them.\<close>

definition sample_world :: world where
  "sample_world =
     \<lparr> disk = sample_fs, tmp_names = [''/tmp/tmpa'', ''/tmp/tmpb'', ''/tmp/tmpc''], calls = [] \<rparr>"

definition text_request :: request where
  "text_request = \<lparr> request_files = [''image'' \<mapsto> \<lparr> filename = ''photo.txt'', content = [1, 4, 4, 7] \<rparr>] \<rparr>"

definition corrupt_request :: request where
  "corrupt_request = \<lparr> request_files = [''image'' \<mapsto> \<lparr> filename = ''photo.jpg'', content = [9, 9, 9] \<rparr>] \<rparr>"

definition good_request :: request where
  "good_request = \<lparr> request_files = [''image'' \<mapsto> \<lparr> filename = ''photo.jpg'', content = [1, 4, 4, 7] \<rparr>] \<rparr>"

section \<open>Properties of the string operations\<close>

lemma str_split_nonempty: "str_split s sep \<noteq> []"
  by (induction s) (auto split: list.splits)

lemma str_split_no_sep: "sep \<notin> set s \<Longrightarrow> str_split s sep = [s]"
  by (induction s) auto

lemma str_split_tl: "sep \<in> set s \<Longrightarrow> tl (str_split s sep) \<noteq> []"
proof (induction s)
  case Nil
  then show ?case by simp
next
  case (Cons c cs)
  show ?case
  proof (cases "c = sep")
    case True
    then show ?thesis by (simp add: str_split_nonempty)
  next
    case False
    with Cons.prems have "sep \<in> set cs" by simp
    then have "tl (str_split cs sep) \<noteq> []" by (rule Cons.IH)
    with False show ?thesis by (cases "str_split cs sep") auto
  qed
qed

lemma last_str_split:
  "last (str_split s sep) = rev (takeWhile (\<lambda>c. c \<noteq> sep) (rev s))"
proof (induction s)
  case Nil
  show ?case by simp
next
  case (Cons c cs)
  show ?case
  proof (cases "sep \<in> set cs")
    case True
    then have tw: "takeWhile (\<lambda>c. c \<noteq> sep) (rev cs @ [c]) = takeWhile (\<lambda>c. c \<noteq> sep) (rev cs)"
      by (simp add: takeWhile_append1)
    from True have "tl (str_split cs sep) \<noteq> []" by (rule str_split_tl)
    then obtain piece p pieces where ps: "str_split cs sep = piece # p # pieces"
      by (cases "str_split cs sep"; cases "tl (str_split cs sep)") auto
    have "last (str_split (c # cs) sep) = last (str_split cs sep)"
      by (simp add: ps)
    with Cons.IH tw show ?thesis by simp
  next
    case False
    then have tw: "takeWhile (\<lambda>c. c \<noteq> sep) (rev cs @ [c]) = rev cs @ takeWhile (\<lambda>c. c \<noteq> sep) [c]"
      by (intro takeWhile_append2) auto
    from False have one: "str_split cs sep = [cs]" by (rule str_split_no_sep)
    show ?thesis
      using one by (simp add: tw)
  qed
qed

lemma py_index_last: "xs \<noteq> [] \<Longrightarrow> py_index xs (- 1) = Inr (last xs)"
  by (cases xs rule: rev_cases) (auto simp: py_index_def Let_def nth_append)

lemma py_index_rsplit1:
  "sep \<in> set s \<Longrightarrow>
   py_index (str_rsplit1 s sep) 1 = Inr (rev (takeWhile (\<lambda>c. c \<noteq> sep) (rev s)))"
  by (simp add: py_index_def str_rsplit1_def)

lemma str_rsplit1_rejoin:
  "sep \<in> set s \<Longrightarrow> str_rsplit1 s sep = [a, b] \<Longrightarrow> s = a @ sep # b \<and> sep \<notin> set b"
proof -
  assume mem: "sep \<in> set s" and eq: "str_rsplit1 s sep = [a, b]"
  let ?P = "\<lambda>c. c \<noteq> sep"
  from mem eq have a: "a = rev (tl (dropWhile ?P (rev s)))" and b: "b = rev (takeWhile ?P (rev s))"
    by (simp_all add: str_rsplit1_def)
  from mem have "dropWhile ?P (rev s) \<noteq> []" by (simp add: dropWhile_eq_Nil_conv)
  moreover have "hd (dropWhile ?P (rev s)) = sep"
    using hd_dropWhile [OF \<open>dropWhile ?P (rev s) \<noteq> []\<close>] by simp
  ultimately have "dropWhile ?P (rev s) = sep # tl (dropWhile ?P (rev s))"
    by (cases "dropWhile ?P (rev s)") auto
  then have "rev s = takeWhile ?P (rev s) @ sep # tl (dropWhile ?P (rev s))"
    using takeWhile_dropWhile_id [of ?P "rev s"] by simp
  then have "rev (rev s) = rev (takeWhile ?P (rev s) @ sep # tl (dropWhile ?P (rev s)))"
    by (rule arg_cong)
  then have "s = a @ sep # b" by (simp add: a b)
  moreover have "sep \<notin> set b"
    using set_takeWhileD [of sep ?P "rev s"] by (auto simp: b)
  ultimately show ?thesis by simp
qed

section \<open>The two extension validators\<close>

lemma allowed_file_meets_spec: "allowed_file name = Inr (hasAllowedExtension_spec name)"
  by (simp add: allowed_file_def hasAllowedExtension_spec_def py_index_rsplit1)

lemma allowed_file_empty: "allowed_file [] = Inr False"
  by (simp add: allowed_file_def)

lemma is_valid_image_extension_suffix:
  "name \<noteq> [] \<Longrightarrow>
   is_valid_image_extension (Some name) =
     Inr (lower (rev (takeWhile (\<lambda>c. c \<noteq> CHR ''.'') (rev name))) \<in> ALLOWED_EXTENSIONS)"
  by (simp add: is_valid_image_extension_def py_index_last str_split_nonempty last_str_split)

lemma validators_agree_with_dot:
  "CHR ''.'' \<in> set name \<Longrightarrow> is_valid_image_extension (Some name) = allowed_file name"
proof -
  assume d: "CHR ''.'' \<in> set name"
  then have "name \<noteq> []" by auto
  then show ?thesis
    using d by (simp add: is_valid_image_extension_suffix allowed_file_meets_spec hasAllowedExtension_spec_def)
qed

section \<open>Resolution score\<close>

lemma py_round_100: "py_round 100 2 = 100"
  by (simp add: py_round_def round_half_even_def Let_def)

lemma exists_Image_open: "Image_open env fs p = Inr img \<Longrightarrow> exists fs p"
  by (auto simp: Image_open_def read_file_def and_then_def exists_def split: option.splits)

text \<open>
  Claim C2. Whenever the image at the path can be opened and its dimensions read,
  \<open>resolution_score\<close> returns \<open>min((width*height / (256*256)) * 100, 100)\<close> rounded
  to 2 decimals: 100 for a 256 by 256 image, 25 for a 128 by 128 image, and 100 for every
  image of more than 256*256 pixels.
\<close>

theorem resolution_score_formula:
  "Image_open env fs p = Inr img \<Longrightarrow> img_size img = (w, h) \<Longrightarrow>
     resolution_score env fs p = Inr (resolutionScore_spec w h) \<and>
     (w = 256 \<and> h = 256 \<longrightarrow> resolution_score env fs p = Inr 100) \<and>
     (w = 128 \<and> h = 128 \<longrightarrow> resolution_score env fs p = Inr 25) \<and>
     (256 * 256 < w * h \<longrightarrow> resolution_score env fs p = Inr 100)"
proof -
  assume op: "Image_open env fs p = Inr img" and sz: "img_size img = (w, h)"
  have ex: "exists fs p" using op by (rule exists_Image_open)
  have main: "resolution_score env fs p = Inr (resolutionScore_spec w h)"
    using ex op sz
    by (simp add: resolution_score_def try_except_def and_then_def resolutionScore_spec_def mult.commute)
  have a: "resolutionScore_spec 256 256 = 100"
    by (simp add: resolutionScore_spec_def py_round_def round_half_even_def Let_def)
  have b: "resolutionScore_spec 128 128 = 25"
    by (simp add: resolutionScore_spec_def py_round_def round_half_even_def Let_def)
  have c: "resolutionScore_spec w h = 100" if big: "256 * 256 < w * h"
  proof -
    define x where "x = real_of_int (w * h)"
    from big have "65536 < x" unfolding x_def by linarith
    then have "100 \<le> x / (256 * 256) * 100" by simp
    then have "min (x / (256 * 256) * 100) 100 = 100" by simp
    then show ?thesis unfolding resolutionScore_spec_def x_def by (simp only: py_round_100)
  qed
  show ?thesis using main a b c by auto
qed

theorem resolution_score_formula_witness:
  "resolution_score sample_env sample_fs ''a.png'' = Inr 100 \<and>
   resolution_score sample_env sample_fs ''b.png'' = Inr 25 \<and>
   resolution_score sample_env sample_fs ''c.png'' = Inr 100"
proof -
  have oa: "Image_open sample_env sample_fs ''a.png'' = Inr \<lparr> img_size = (256, 256), img_data = [1, 256, 256, 99996] \<rparr>"
    by (simp add: Image_open_def read_file_def and_then_def sample_env_def sample_fs_def)
  have ob: "Image_open sample_env sample_fs ''b.png'' = Inr \<lparr> img_size = (128, 128), img_data = [1, 128, 128, 7] \<rparr>"
    by (simp add: Image_open_def read_file_def and_then_def sample_env_def sample_fs_def)
  have oc: "Image_open sample_env sample_fs ''c.png'' = Inr \<lparr> img_size = (300, 300), img_data = [1, 300, 300, 120000] \<rparr>"
    by (simp add: Image_open_def read_file_def and_then_def sample_env_def sample_fs_def)
  have a: "resolution_score sample_env sample_fs ''a.png'' = Inr 100"
    using resolution_score_formula [OF oa, of 256 256, THEN conjunct2, THEN conjunct1] by simp
  have b: "resolution_score sample_env sample_fs ''b.png'' = Inr 25"
    using resolution_score_formula [OF ob, of 128 128, THEN conjunct2, THEN conjunct2, THEN conjunct1] by simp
  have c: "resolution_score sample_env sample_fs ''c.png'' = Inr 100"
    using resolution_score_formula [OF oc, of 300 300, THEN conjunct2, THEN conjunct2, THEN conjunct2] by simp
  show ?thesis using a b c by simp
qed

section \<open>Blur classification and blur score\<close>



lemma exists_imread: "imread env fs p = Some g \<Longrightarrow> exists fs p"
  by (auto simp: imread_def exists_def split: option.splits)

lemma is_blurry_value:
  "imread env fs p = Some g \<Longrightarrow> Laplacian_var env g = Inr v \<Longrightarrow>
   is_blurry env fs p t = Inr (v < t)"
  by (frule exists_imread) (simp add: is_blurry_def try_except_def and_then_def)

lemma blur_score_value:
  "imread env fs p = Some g \<Longrightarrow> Laplacian_var env g = Inr v \<Longrightarrow>
   blur_score env fs p = Inr (py_round v 2)"
  by (frule exists_imread) (simp add: blur_score_def try_except_def and_then_def)


lemma sample_imread_a: "imread sample_env sample_fs ''a.png'' = Some [[99996]]"
  by (simp add: imread_def sample_env_def sample_fs_def)

lemma sample_var_a: "Laplacian_var sample_env [[99996]] = Inr (99996 / 1000)"
  by (simp add: sample_env_def)



section \<open>The composed analysis\<close>

lemma analyze_image_quality_Inr:
  "analyze_image_quality env fs p = Inr r \<Longrightarrow>
     verifies env fs p \<and>
     resolution_score env fs p = Inr (r_resolution_score r) \<and>
     is_blurry env fs p 100 = Inr (r_is_blurry r) \<and>
     blur_score env fs p = Inr (r_blur_score r) \<and>
     r_clarity r = (if \<not> r_is_blurry r then ''Clear'' else ''Blurry'')"
  by (auto simp: analyze_image_quality_def try_except_def and_then_def verifies_def
           split: sum.splits)

lemma analyze_image_quality_not_verified:
  "\<not> verifies env fs p \<Longrightarrow> \<exists>e. analyze_image_quality env fs p = Inl e"
  by (auto simp: analyze_image_quality_def try_except_def and_then_def verifies_def
           split: sum.splits)

lemma analyze_image_quality_composed:
  "verifies env fs p \<Longrightarrow> is_blurry env fs p 100 = Inr b \<Longrightarrow>
   resolution_score env fs p = Inr rs \<Longrightarrow> blur_score env fs p = Inr bs \<Longrightarrow>
   analyze_image_quality env fs p =
     Inr \<lparr> r_resolution_score = rs, r_is_blurry = b, r_blur_score = bs,
           r_clarity = (if \<not> b then ''Clear'' else ''Blurry'') \<rparr>"
  by (auto simp: analyze_image_quality_def try_except_def and_then_def verifies_def
           split: sum.splits)

text \<open>
  Claim C4. \<open>analyze_image_quality\<close> raises when the file does not pass \<open>Image.open\<close>
  and \<open>verify\<close>. When it returns, the file passed that check, and the record holds the
  values of \<open>resolution_score\<close>, of \<open>is_blurry\<close> at the threshold 100.0 and of
  \<open>blur_score\<close> on the same path, with the label Clear exactly when \<open>is_blurry\<close> is
  false and Blurry exactly when it is true. When the check passes and the three operations
  return, it returns that record.
\<close>

theorem analyze_image_quality_result:
  "(\<not> verifies env fs p \<longrightarrow> (\<exists>e. analyze_image_quality env fs p = Inl e)) \<and>
   (analyze_image_quality env fs p = Inr r \<longrightarrow>
      verifies env fs p \<and>
      resolution_score env fs p = Inr (r_resolution_score r) \<and>
      is_blurry env fs p 100 = Inr (r_is_blurry r) \<and>
      blur_score env fs p = Inr (r_blur_score r) \<and>
      (r_clarity r = ''Clear'') = (\<not> r_is_blurry r) \<and>
      (r_clarity r = ''Blurry'') = r_is_blurry r) \<and>
   (verifies env fs p \<and> is_blurry env fs p 100 = Inr b \<and>
    resolution_score env fs p = Inr rs \<and> blur_score env fs p = Inr bs \<longrightarrow>
      analyze_image_quality env fs p =
        Inr \<lparr> r_resolution_score = rs, r_is_blurry = b, r_blur_score = bs,
              r_clarity = (if \<not> b then ''Clear'' else ''Blurry'') \<rparr>)"
proof (intro conjI impI)
  assume "\<not> verifies env fs p"
  then show "\<exists>e. analyze_image_quality env fs p = Inl e"
    by (rule analyze_image_quality_not_verified)
next
  assume r: "analyze_image_quality env fs p = Inr r"
  note f = analyze_image_quality_Inr [OF r]
  show "verifies env fs p" using f by simp
  show "resolution_score env fs p = Inr (r_resolution_score r)" using f by simp
  show "is_blurry env fs p 100 = Inr (r_is_blurry r)" using f by simp
  show "blur_score env fs p = Inr (r_blur_score r)" using f by simp
  show "(r_clarity r = ''Clear'') = (\<not> r_is_blurry r)" using f by simp
  show "(r_clarity r = ''Blurry'') = r_is_blurry r" using f by simp
next
  assume "verifies env fs p \<and> is_blurry env fs p 100 = Inr b \<and>
    resolution_score env fs p = Inr rs \<and> blur_score env fs p = Inr bs"
  then show "analyze_image_quality env fs p =
        Inr \<lparr> r_resolution_score = rs, r_is_blurry = b, r_blur_score = bs,
              r_clarity = (if \<not> b then ''Clear'' else ''Blurry'') \<rparr>"
    by (simp add: analyze_image_quality_composed)
qed

lemma sample_verifies_a: "verifies sample_env sample_fs ''a.png''"
  by (simp add: verifies_def Image_open_def read_file_def and_then_def sample_env_def sample_fs_def)

lemma sample_not_verifies_bad: "\<not> verifies sample_env sample_fs ''bad.jpg''"
  by (simp add: verifies_def Image_open_def read_file_def and_then_def sample_env_def sample_fs_def)

lemma sample_not_verifies_trunc: "\<not> verifies sample_env sample_fs ''trunc.jpg''"
  by (simp add: verifies_def Image_open_def read_file_def and_then_def sample_env_def sample_fs_def)

lemma sample_is_blurry_a: "is_blurry sample_env sample_fs ''a.png'' 100 = Inr True"
  using is_blurry_value [OF sample_imread_a sample_var_a, of 100] by simp

lemma sample_blur_score_a: "blur_score sample_env sample_fs ''a.png'' = Inr 100"
proof -
  have "py_round (99996 / 1000) 2 = 100"
    by (simp add: py_round_def round_half_even_def Let_def)
  then show ?thesis using blur_score_value [OF sample_imread_a sample_var_a] by simp
qed

lemma sample_resolution_score_a: "resolution_score sample_env sample_fs ''a.png'' = Inr 100"
  by (simp add: resolution_score_def exists_def try_except_def and_then_def Image_open_def
        read_file_def sample_env_def sample_fs_def py_round_100)

theorem analyze_image_quality_result_witness:
  "analyze_image_quality sample_env sample_fs ''a.png'' =
     Inr \<lparr> r_resolution_score = 100, r_is_blurry = True, r_blur_score = 100,
           r_clarity = ''Blurry'' \<rparr> \<and>
   (\<exists>e. analyze_image_quality sample_env sample_fs ''bad.jpg'' = Inl e) \<and>
   verifies sample_env sample_fs ''a.png''"
proof -
  have ok: "analyze_image_quality sample_env sample_fs ''a.png'' =
     Inr \<lparr> r_resolution_score = 100, r_is_blurry = True, r_blur_score = 100,
           r_clarity = ''Blurry'' \<rparr>"
    using analyze_image_quality_result
            [of sample_env sample_fs "''a.png''" _ True 100 100,
             THEN conjunct2, THEN conjunct2]
          sample_verifies_a sample_is_blurry_a sample_resolution_score_a sample_blur_score_a
    by simp
  have bad: "\<exists>e. analyze_image_quality sample_env sample_fs ''bad.jpg'' = Inl e"
    using analyze_image_quality_result [of sample_env sample_fs "''bad.jpg''", THEN conjunct1]
          sample_not_verifies_bad
    by simp
  have v: "verifies sample_env sample_fs ''a.png''"
    using analyze_image_quality_result
            [of sample_env sample_fs "''a.png''", THEN conjunct2, THEN conjunct1] ok
    by simp
  show ?thesis using ok bad v by simp
qed

section \<open>Decodability checks never raise\<close>

text \<open>
  Claim C7. Both decodability checks return a boolean on every input and never raise:
  the check on a path returns whether \<open>Image.open\<close> and \<open>verify\<close> pass, false for a
  missing, non-image or corrupt file; the check on a buffer returns false whenever
  \<open>Image.open\<close> or \<open>verify\<close> raises.
\<close>

theorem is_valid_image_never_raises:
  "(\<exists>b. is_valid_image env fs p = Inr b) \<and>
   is_valid_image env fs p = Inr (verifies env fs p) \<and>
   (\<exists>b. is_valid_image_file env buf = Inr b) \<and>
   (\<forall>e. PIL_open env buf = Inl e \<longrightarrow> is_valid_image_file env buf = Inr False) \<and>
   (\<forall>img e. PIL_open env buf = Inr img \<and> PIL_verify env img = Inl e \<longrightarrow>
      is_valid_image_file env buf = Inr False)"
  by (auto simp: is_valid_image_def is_valid_image_file_def verifies_def try_except_def
        and_then_def split: sum.splits)

theorem is_valid_image_never_raises_witness:
  "is_valid_image sample_env sample_fs ''bad.jpg'' = Inr False \<and>
   is_valid_image sample_env sample_fs ''trunc.jpg'' = Inr False \<and>
   is_valid_image sample_env sample_fs ''missing.jpg'' = Inr False \<and>
   is_valid_image sample_env sample_fs ''a.png'' = Inr True \<and>
   is_valid_image_file sample_env [9, 9, 9] = Inr False \<and>
   is_valid_image_file sample_env [1, 10, 10, 0] = Inr False"
proof -
  have m: "\<not> verifies sample_env sample_fs ''missing.jpg''"
    by (simp add: verifies_def Image_open_def read_file_def and_then_def sample_fs_def)
  have o1: "PIL_open sample_env [9, 9, 9] = Inl (Exn LibraryError ''cannot identify image file'')"
    by (simp add: sample_env_def)
  have o2: "PIL_open sample_env [1, 10, 10, 0] = Inr \<lparr> img_size = (10, 10), img_data = [1, 10, 10, 0] \<rparr>
            \<and> PIL_verify sample_env \<lparr> img_size = (10, 10), img_data = [1, 10, 10, 0] \<rparr>
                = Inl (Exn LibraryError ''broken data stream'')"
    by (simp add: sample_env_def)
  note t = is_valid_image_never_raises
  have a: "is_valid_image sample_env sample_fs ''bad.jpg'' = Inr False"
    using t [of sample_env sample_fs "''bad.jpg''", THEN conjunct2, THEN conjunct1]
      sample_not_verifies_bad by simp
  have b: "is_valid_image sample_env sample_fs ''trunc.jpg'' = Inr False"
    using t [of sample_env sample_fs "''trunc.jpg''", THEN conjunct2, THEN conjunct1]
      sample_not_verifies_trunc by simp
  have c: "is_valid_image sample_env sample_fs ''missing.jpg'' = Inr False"
    using t [of sample_env sample_fs "''missing.jpg''", THEN conjunct2, THEN conjunct1]
      m by simp
  have d: "is_valid_image sample_env sample_fs ''a.png'' = Inr True"
    using t [of sample_env sample_fs "''a.png''", THEN conjunct2, THEN conjunct1]
      sample_verifies_a by simp
  have e: "is_valid_image_file sample_env [9, 9, 9] = Inr False"
    using t [of sample_env _ _ "[9, 9, 9]"] o1 by blast
  have f: "is_valid_image_file sample_env [1, 10, 10, 0] = Inr False"
    using t [of sample_env _ _ "[1, 10, 10, 0]"] o2 by blast
  show ?thesis using a b c d e f by simp
qed

section \<open>Errors of the background remover\<close>

text \<open>
  Claim C8. When the input path does not exist, \<open>remove_background\<close> raises
  \<open>FileNotFoundError\<close> and writes nothing. When the segmentation delegate raises, the
  failure is raised again as a plain exception whose message is
  \<open>Failed to remove background: \<close> followed by the delegate's message, and nothing is
  written. When the delegate returns, its result is written to the output path.
\<close>

theorem remove_background_errors:
  "(\<not> exists fs input_path \<longrightarrow>
      remove_background env fs input_path output_path =
        (Inl (Exn FileNotFoundError (''Input file not found: '' @ input_path)), fs)) \<and>
   (fs input_path = Some input_bytes \<and> rembg_remove env input_bytes = Inl e \<longrightarrow>
      remove_background env fs input_path output_path =
        (Inl (Exn PlainException (''Failed to remove background: '' @ str_exn e)), fs)) \<and>
   (fs input_path = Some input_bytes \<and> rembg_remove env input_bytes = Inr output_bytes \<longrightarrow>
      remove_background env fs input_path output_path =
        (Inr (), fs(output_path \<mapsto> output_bytes)))"
  by (simp add: remove_background_def exists_def read_file_def and_then_def)

theorem remove_background_errors_witness:
  "remove_background sample_env sample_fs ''missing.jpg'' ''out.png'' =
     (Inl (Exn FileNotFoundError ''Input file not found: missing.jpg''), sample_fs) \<and>
   remove_background sample_env sample_fs ''bad.jpg'' ''out.png'' =
     (Inl (Exn PlainException ''Failed to remove background: cannot identify image file''),
      sample_fs) \<and>
   sample_fs ''out.png'' = None \<and>
   remove_background sample_env sample_fs ''b.png'' ''out.png'' =
     (Inr (), sample_fs(''out.png'' \<mapsto> [1, 128, 128, 7, 255]))"
proof -
  have m: "\<not> exists sample_fs ''missing.jpg''" by (simp add: exists_def sample_fs_def)
  have b: "sample_fs ''bad.jpg'' = Some [9, 9, 9] \<and>
           rembg_remove sample_env [9, 9, 9] = Inl (Exn LibraryError ''cannot identify image file'')"
    by (simp add: sample_fs_def sample_env_def)
  have g: "sample_fs ''b.png'' = Some [1, 128, 128, 7] \<and>
           rembg_remove sample_env [1, 128, 128, 7] = Inr [1, 128, 128, 7, 255]"
    by (simp add: sample_fs_def sample_env_def)
  have o: "sample_fs ''out.png'' = None" by (simp add: sample_fs_def)
  note t = remove_background_errors
  have 1: "remove_background sample_env sample_fs ''missing.jpg'' ''out.png'' =
     (Inl (Exn FileNotFoundError ''Input file not found: missing.jpg''), sample_fs)"
    using t [of sample_fs "''missing.jpg''" sample_env "''out.png''", THEN conjunct1] m by simp
  have 2: "remove_background sample_env sample_fs ''bad.jpg'' ''out.png'' =
     (Inl (Exn PlainException ''Failed to remove background: cannot identify image file''),
      sample_fs)"
    using t [of sample_fs "''bad.jpg''" sample_env "''out.png''" "[9, 9, 9]"
               "Exn LibraryError ''cannot identify image file''",
             THEN conjunct2, THEN conjunct1] b by simp
  have 3: "remove_background sample_env sample_fs ''b.png'' ''out.png'' =
     (Inr (), sample_fs(''out.png'' \<mapsto> [1, 128, 128, 7, 255]))"
    using t [of sample_fs "''b.png''" sample_env "''out.png''" "[1, 128, 128, 7]" _
               "[1, 128, 128, 7, 255]",
             THEN conjunct2, THEN conjunct2] g by simp
  show ?thesis using 1 2 3 o by simp
qed

section \<open>Failures of the composed analysis\<close>

lemma analyze_image_quality_Inl:
  "analyze_image_quality env fs p = Inl e \<Longrightarrow> analysis_failed e"
  by (auto simp: analyze_image_quality_def try_except_def and_then_def analysis_failed_def
           split: sum.splits)

lemma analyze_image_quality_step_fails:
  "\<not> verifies env fs p \<or> (\<exists>e. is_blurry env fs p 100 = Inl e) \<or>
   (\<exists>e. resolution_score env fs p = Inl e) \<or> (\<exists>e. blur_score env fs p = Inl e) \<Longrightarrow>
   \<exists>e. analyze_image_quality env fs p = Inl e"
  by (auto simp: analyze_image_quality_def try_except_def and_then_def verifies_def
           split: sum.splits)

lemma missing_not_verifies: "\<not> exists fs p \<Longrightarrow> \<not> verifies env fs p"
  by (simp add: verifies_def Image_open_def read_file_def and_then_def exists_def)

text \<open>
  Claim C10. Every exception that leaves \<open>analyze_image_quality\<close> is a plain exception
  whose message begins with \<open>Image quality analysis failed\<close>, never a
  \<open>FileNotFoundError\<close>. Whenever the decodability check or one of the three operations
  fails, it raises such an exception. For a missing file, \<open>resolution_score\<close> and
  \<open>is_blurry\<close> themselves raise \<open>FileNotFoundError\<close>, and \<open>analyze_image_quality\<close>
  raises the generic exception.
\<close>

theorem analyze_image_quality_wraps:
  "(\<forall>e. analyze_image_quality env fs p = Inl e \<longrightarrow>
      analysis_failed e \<and> class_of e \<noteq> FileNotFoundError) \<and>
   ((\<not> verifies env fs p \<or> (\<exists>e. is_blurry env fs p 100 = Inl e) \<or>
     (\<exists>e. resolution_score env fs p = Inl e) \<or> (\<exists>e. blur_score env fs p = Inl e)) \<longrightarrow>
      (\<exists>e. analyze_image_quality env fs p = Inl e \<and> analysis_failed e)) \<and>
   (\<not> exists fs p \<longrightarrow>
      resolution_score env fs p = Inl (Exn FileNotFoundError (''Image file not found: '' @ p)) \<and>
      is_blurry env fs p t = Inl (Exn FileNotFoundError (''Image file not found: '' @ p)) \<and>
      (\<exists>e. analyze_image_quality env fs p = Inl e \<and> analysis_failed e))"
proof (intro conjI allI impI)
  fix e assume e: "analyze_image_quality env fs p = Inl e"
  then show "analysis_failed e" by (rule analyze_image_quality_Inl)
  then show "class_of e \<noteq> FileNotFoundError" by (simp add: analysis_failed_def)
next
  assume "\<not> verifies env fs p \<or> (\<exists>e. is_blurry env fs p 100 = Inl e) \<or>
     (\<exists>e. resolution_score env fs p = Inl e) \<or> (\<exists>e. blur_score env fs p = Inl e)"
  then obtain e where "analyze_image_quality env fs p = Inl e"
    using analyze_image_quality_step_fails by blast
  then show "\<exists>e. analyze_image_quality env fs p = Inl e \<and> analysis_failed e"
    using analyze_image_quality_Inl by blast
next
  assume m: "\<not> exists fs p"
  show "resolution_score env fs p = Inl (Exn FileNotFoundError (''Image file not found: '' @ p))"
    using m by (simp add: resolution_score_def)
  show "is_blurry env fs p t = Inl (Exn FileNotFoundError (''Image file not found: '' @ p))"
    using m by (simp add: is_blurry_def)
  from m have "\<not> verifies env fs p" by (rule missing_not_verifies)
  then obtain e where "analyze_image_quality env fs p = Inl e"
    using analyze_image_quality_step_fails by blast
  then show "\<exists>e. analyze_image_quality env fs p = Inl e \<and> analysis_failed e"
    using analyze_image_quality_Inl by blast
qed

theorem analyze_image_quality_wraps_witness:
  "analyze_image_quality sample_env sample_fs ''missing.jpg'' =
     Inl (Exn PlainException
       ''Image quality analysis failed: [Errno 2] No such file or directory: missing.jpg'') \<and>
   analysis_failed (Exn PlainException
       ''Image quality analysis failed: [Errno 2] No such file or directory: missing.jpg'') \<and>
   resolution_score sample_env sample_fs ''missing.jpg'' =
     Inl (Exn FileNotFoundError ''Image file not found: missing.jpg'') \<and>
   is_blurry sample_env sample_fs ''missing.jpg'' 100 =
     Inl (Exn FileNotFoundError ''Image file not found: missing.jpg'') \<and>
   (\<exists>e. analyze_image_quality sample_env sample_fs ''bad.jpg'' = Inl e \<and> analysis_failed e)"
proof -
  have m: "\<not> exists sample_fs ''missing.jpg''" by (simp add: exists_def sample_fs_def)
  have v: "analyze_image_quality sample_env sample_fs ''missing.jpg'' =
     Inl (Exn PlainException
       ''Image quality analysis failed: [Errno 2] No such file or directory: missing.jpg'')"
    by (simp add: analyze_image_quality_def try_except_def and_then_def Image_open_def
          read_file_def sample_fs_def)
  note t = analyze_image_quality_wraps [of sample_env sample_fs _ 100]
  have 1: "analysis_failed (Exn PlainException
       ''Image quality analysis failed: [Errno 2] No such file or directory: missing.jpg'')"
    using t [of "''missing.jpg''", THEN conjunct1] v by blast
  have 2: "resolution_score sample_env sample_fs ''missing.jpg'' =
     Inl (Exn FileNotFoundError ''Image file not found: missing.jpg'')"
    using t [of "''missing.jpg''", THEN conjunct2, THEN conjunct2] m by simp
  have 3: "is_blurry sample_env sample_fs ''missing.jpg'' 100 =
     Inl (Exn FileNotFoundError ''Image file not found: missing.jpg'')"
    using t [of "''missing.jpg''", THEN conjunct2, THEN conjunct2] m by simp
  have 4: "\<exists>e. analyze_image_quality sample_env sample_fs ''bad.jpg'' = Inl e \<and> analysis_failed e"
    using t [of "''bad.jpg''", THEN conjunct2, THEN conjunct1] sample_not_verifies_bad by blast
  show ?thesis using v 1 2 3 4 by simp
qed

section \<open>Where the two extension validators differ\<close>

lemma hasAllowedExtension_spec_iff:
  "hasAllowedExtension_spec name \<longleftrightarrow>
     (\<exists>stem suffix. name = stem @ CHR ''.'' # suffix \<and> CHR ''.'' \<notin> set suffix \<and>
        lower suffix \<in> ALLOWED_EXTENSIONS)"
proof
  assume h: "hasAllowedExtension_spec name"
  then have d: "CHR ''.'' \<in> set name" by (simp add: hasAllowedExtension_spec_def)
  let ?a = "rev (tl (dropWhile (\<lambda>c. c \<noteq> CHR ''.'') (rev name)))"
  let ?b = "rev (takeWhile (\<lambda>c. c \<noteq> CHR ''.'') (rev name))"
  have "str_rsplit1 name (CHR ''.'') = [?a, ?b]" using d by (simp add: str_rsplit1_def)
  with d have "name = ?a @ CHR ''.'' # ?b \<and> CHR ''.'' \<notin> set ?b" by (rule str_rsplit1_rejoin)
  moreover from h have "lower ?b \<in> ALLOWED_EXTENSIONS" by (simp add: hasAllowedExtension_spec_def)
  ultimately show "\<exists>stem suffix. name = stem @ CHR ''.'' # suffix \<and> CHR ''.'' \<notin> set suffix \<and>
        lower suffix \<in> ALLOWED_EXTENSIONS" by blast
next
  assume "\<exists>stem suffix. name = stem @ CHR ''.'' # suffix \<and> CHR ''.'' \<notin> set suffix \<and>
        lower suffix \<in> ALLOWED_EXTENSIONS"
  then obtain stem suffix where n: "name = stem @ CHR ''.'' # suffix"
    and s: "CHR ''.'' \<notin> set suffix" and l: "lower suffix \<in> ALLOWED_EXTENSIONS" by blast
  from s have "takeWhile (\<lambda>c. c \<noteq> CHR ''.'') (rev suffix @ CHR ''.'' # rev stem) = rev suffix"
    by (subst takeWhile_append2) auto
  then have "rev (takeWhile (\<lambda>c. c \<noteq> CHR ''.'') (rev name)) = suffix" by (simp add: n)
  with l n show "hasAllowedExtension_spec name" by (simp add: hasAllowedExtension_spec_def)
qed

lemma is_valid_image_extension_missing:
  "is_valid_image_extension None = Inr False \<and> is_valid_image_extension (Some []) = Inr False"
  by (simp add: is_valid_image_extension_def)

lemma is_valid_image_extension_dotless:
  "CHR ''.'' \<notin> set name \<Longrightarrow>
   is_valid_image_extension (Some name) = Inr (lower name \<in> ALLOWED_EXTENSIONS)"
proof (cases "name = []")
  case True
  then show ?thesis
    by (simp add: is_valid_image_extension_def lower_def ALLOWED_EXTENSIONS_def)
next
  case False
  assume "CHR ''.'' \<notin> set name"
  then have tw: "takeWhile (\<lambda>c. c \<noteq> CHR ''.'') (rev name) = rev name"
    by (auto simp: takeWhile_eq_all_conv)
  show ?thesis
    by (simp only: is_valid_image_extension_suffix [OF False] tw rev_rev_ident)
qed

lemma validators_differ_iff:
  "is_valid_image_extension (Some name) \<noteq> allowed_file name \<longleftrightarrow>
     CHR ''.'' \<notin> set name \<and> lower name \<in> ALLOWED_EXTENSIONS"
proof (cases "CHR ''.'' \<in> set name")
  case True
  then show ?thesis by (simp add: validators_agree_with_dot)
next
  case False
  then show ?thesis
    by (simp add: is_valid_image_extension_dotless allowed_file_def)
qed

text \<open>
  Claim C5. The validator of the API returns true exactly when the file name contains a
  dot and the suffix after the last dot is, in lower case, an allowed extension
  (\<open>allowed_file_meets_spec\<close>, \<open>hasAllowedExtension_spec_iff\<close>), and both validators
  return false for an empty or missing name. The validator of the UI does not check for the
  dot: on the file name \<open>png\<close>, which has none, it returns true.
\<close>

theorem is_valid_image_extension_accepts_dotless:
  "is_valid_image_extension (Some ''png'') = Inr True \<and>
   CHR ''.'' \<notin> set ''png'' \<and>
   \<not> hasAllowedExtension_spec ''png''"
  by (simp add: is_valid_image_extension_dotless hasAllowedExtension_spec_def lower_def
        lower_char_def ALLOWED_EXTENSIONS_def)

text \<open>
  Claim C6. The two validators return the same boolean on every file name that contains a
  dot (\<open>validators_agree_with_dot\<close>); they differ exactly on the names without a dot that
  are themselves an allowed extension (\<open>validators_differ_iff\<close>). On \<open>png\<close> the API's
  validator returns false and the UI's returns true.
\<close>

theorem validators_disagree_on_dotless:
  "allowed_file ''png'' = Inr False \<and> is_valid_image_extension (Some ''png'') = Inr True"
  by (simp add: is_valid_image_extension_dotless allowed_file_def lower_def
        lower_char_def ALLOWED_EXTENSIONS_def)

section \<open>Client errors of the analysis endpoint\<close>

lemma NamedTemporaryFile_Inr:
  "NamedTemporaryFile w suffix = (Inr p, w1) \<Longrightarrow>
     \<not> exists (disk w) p \<and> disk w1 = (disk w)(p \<mapsto> []) \<and> calls w1 = calls w"
  by (auto simp: NamedTemporaryFile_def dropWhile_eq_Cons_conv split: list.splits)

lemma NamedTemporaryFile_Inl:
  "NamedTemporaryFile w suffix = (Inl e, w1) \<Longrightarrow> disk w1 = disk w \<and> calls w1 = calls w"
  by (auto simp: NamedTemporaryFile_def split: list.splits)

lemma disk_unlink_if_exists: "disk (unlink_if_exists p w) = (disk w)(p := None)"
  by (auto simp: unlink_if_exists_def unlink_def exists_def)

lemma calls_unlink_if_exists: "calls (unlink_if_exists p w) = calls w"
  by (simp add: unlink_if_exists_def unlink_def)

lemma analyze_image_try_disk:
  "analyze_image_try env w file p = (outcome, w') \<Longrightarrow> disk w' = disk w"
  by (auto simp: analyze_image_try_def record_call_def Let_def split: sum.splits if_splits)

lemma fresh_then_removed:
  "\<not> exists fs p \<Longrightarrow> (fs(p \<mapsto> a, p \<mapsto> b))(p := None) = fs"
  by (auto simp: exists_def)

lemma is_valid_image_staged:
  "is_valid_image env (fs(p \<mapsto> b)) p = Inr (decodable env b)"
  by (simp add: is_valid_image_def Image_open_def read_file_def and_then_def try_except_def
        decodable_def split: sum.splits)

lemma invalid_file_type_distinct:
  "(ErrorJson ''File is not a valid image'' None, 400) \<noteq> invalid_file_type env"
  by (simp add: invalid_file_type_def)

lemma allowed_file_True_nonempty: "allowed_file name = Inr True \<Longrightarrow> name \<noteq> []"
  by (auto simp: allowed_file_def)

text \<open>
  Claim C9. When the uploaded file's name has a disallowed extension, \<open>analyze_image\<close>
  answers with a client error (status 400, for a non-empty name the message
  \<open>Invalid file type\<close>) and leaves the world as it was: no temporary file has been
  created and no call into the decoder has been made. When the extension is allowed, the
  bytes are not decodable and the temporary file can be created, the only call made is the
  decodability check on the temporary file, and the answer is the client error
  \<open>File is not a valid image\<close>, which differs from the extension error; the file system
  is as before the request.
\<close>

theorem analyze_image_client_errors:
  "(request_files request ''image'' = Some file \<and> allowed_file (filename file) = Inr False \<longrightarrow>
      (\<exists>msg. analyze_image env w request = ((ErrorJson msg None, 400), w)) \<and>
      (filename file \<noteq> [] \<longrightarrow> analyze_image env w request = (invalid_file_type env, w))) \<and>
   (request_files request ''image'' = Some file \<and> allowed_file (filename file) = Inr True \<and>
    \<not> decodable env (content file) \<and> NamedTemporaryFile w ''.jpg'' = (Inr temp_path, w1) \<longrightarrow>
      fst (analyze_image env w request) = (ErrorJson ''File is not a valid image'' None, 400) \<and>
      fst (analyze_image env w request) \<noteq> invalid_file_type env \<and>
      calls (snd (analyze_image env w request)) = calls w @ [IsValidImage temp_path] \<and>
      disk (snd (analyze_image env w request)) = disk w)"
proof (intro conjI impI)
  assume h: "request_files request ''image'' = Some file \<and> allowed_file (filename file) = Inr False"
  then show "\<exists>msg. analyze_image env w request = ((ErrorJson msg None, 400), w)"
    by (simp add: analyze_image_def invalid_file_type_def)
  assume "filename file \<noteq> []"
  with h show "analyze_image env w request = (invalid_file_type env, w)"
    by (simp add: analyze_image_def)
next
  assume h: "request_files request ''image'' = Some file \<and> allowed_file (filename file) = Inr True \<and>
    \<not> decodable env (content file) \<and> NamedTemporaryFile w ''.jpg'' = (Inr temp_path, w1)"
  then have ne: "filename file \<noteq> []" using allowed_file_True_nonempty by blast
  from h have tmp: "NamedTemporaryFile w ''.jpg'' = (Inr temp_path, w1)" by simp
  note f = NamedTemporaryFile_Inr [OF tmp]
  have t: "analyze_image_try env (save file temp_path w1) file temp_path =
             (Inr (ErrorJson ''File is not a valid image'' None, 400),
              record_call (IsValidImage temp_path) (save file temp_path w1))"
    using h by (simp add: analyze_image_try_def record_call_def save_def is_valid_image_staged)
  have r: "analyze_image env w request =
             ((ErrorJson ''File is not a valid image'' None, 400),
              unlink_if_exists temp_path
                (record_call (IsValidImage temp_path) (save file temp_path w1)))"
    using h ne t by (simp add: analyze_image_def)
  show "fst (analyze_image env w request) = (ErrorJson ''File is not a valid image'' None, 400)"
    by (simp add: r)
  then show "fst (analyze_image env w request) \<noteq> invalid_file_type env"
    by (simp add: invalid_file_type_distinct)
  show "calls (snd (analyze_image env w request)) = calls w @ [IsValidImage temp_path]"
    using f by (simp add: r calls_unlink_if_exists record_call_def save_def)
  show "disk (snd (analyze_image env w request)) = disk w"
    using f by (simp add: r disk_unlink_if_exists record_call_def save_def) (auto simp: exists_def)
qed

lemma sample_tmp_jpg:
  "NamedTemporaryFile sample_world ''.jpg'' =
     (Inr ''/tmp/tmpa.jpg'',
      sample_world\<lparr> disk := (disk sample_world)(''/tmp/tmpa.jpg'' \<mapsto> []),
                     tmp_names := [''/tmp/tmpb'', ''/tmp/tmpc''] \<rparr>)"
  by (simp add: NamedTemporaryFile_def sample_world_def sample_fs_def exists_def)

lemma allowed_photo_jpg: "allowed_file ''photo.jpg'' = Inr True"
  by (simp add: allowed_file_meets_spec hasAllowedExtension_spec_def lower_def lower_char_def
        ALLOWED_EXTENSIONS_def)

lemma allowed_photo_txt: "allowed_file ''photo.txt'' = Inr False"
  by (simp add: allowed_file_meets_spec hasAllowedExtension_spec_def lower_def lower_char_def
        ALLOWED_EXTENSIONS_def)

theorem analyze_image_client_errors_witness:
  "analyze_image sample_env sample_world text_request =
     ((ErrorJson ''Invalid file type. Allowed types: png, jpg, jpeg, gif, bmp, tiff, webp'' None,
       400), sample_world) \<and>
   fst (analyze_image sample_env sample_world corrupt_request) =
     (ErrorJson ''File is not a valid image'' None, 400) \<and>
   calls (snd (analyze_image sample_env sample_world corrupt_request)) =
     [IsValidImage ''/tmp/tmpa.jpg''] \<and>
   disk (snd (analyze_image sample_env sample_world corrupt_request)) = sample_fs"
proof -
  have rt: "request_files text_request ''image'' =
               Some \<lparr> filename = ''photo.txt'', content = [1, 4, 4, 7] \<rparr>"
    by (simp add: text_request_def)
  have rc: "request_files corrupt_request ''image'' =
               Some \<lparr> filename = ''photo.jpg'', content = [9, 9, 9] \<rparr>"
    by (simp add: corrupt_request_def)
  have nd: "\<not> decodable sample_env [9, 9, 9]"
    by (simp add: decodable_def and_then_def sample_env_def)
  have msg: "invalid_file_type sample_env =
     (ErrorJson ''Invalid file type. Allowed types: png, jpg, jpeg, gif, bmp, tiff, webp'' None,
      400)"
    by (simp add: invalid_file_type_def sample_env_def)
  have 1: "analyze_image sample_env sample_world text_request =
     ((ErrorJson ''Invalid file type. Allowed types: png, jpg, jpeg, gif, bmp, tiff, webp'' None,
       400), sample_world)"
    using analyze_image_client_errors
            [of text_request "\<lparr> filename = ''photo.txt'', content = [1, 4, 4, 7] \<rparr>"
                sample_env sample_world, THEN conjunct1]
          rt allowed_photo_txt msg
    by simp
  note c = analyze_image_client_errors
            [of corrupt_request "\<lparr> filename = ''photo.jpg'', content = [9, 9, 9] \<rparr>"
                sample_env sample_world "''/tmp/tmpa.jpg''" _, THEN conjunct2]
  have 2: "fst (analyze_image sample_env sample_world corrupt_request) =
     (ErrorJson ''File is not a valid image'' None, 400) \<and>
   calls (snd (analyze_image sample_env sample_world corrupt_request)) =
     [IsValidImage ''/tmp/tmpa.jpg''] \<and>
   disk (snd (analyze_image sample_env sample_world corrupt_request)) = sample_fs"
    using c rc allowed_photo_jpg nd sample_tmp_jpg
    by (simp add: sample_world_def)
  show ?thesis using 1 2 by simp
qed


section \<open>Temporary files\<close>

text \<open>
  \<open>analyze_image\<close> leaves the file system as it found it, on every path.
\<close>

lemma analyze_image_disk: "disk (snd (analyze_image env w request)) = disk w"
proof (cases "request_files request ''image''")
  case None
  then show ?thesis by (simp add: analyze_image_def)
next
  case (Some f)
  show ?thesis
  proof (cases "filename f \<noteq> [] \<and> allowed_file (filename f) = Inr True")
    case False
    with Some show ?thesis
      by (auto simp: analyze_image_def split: sum.splits)
  next
    case True
    obtain r w1 where tmp: "NamedTemporaryFile w ''.jpg'' = (r, w1)" by force
    show ?thesis
    proof (cases r)
      case (Inl e)
      with tmp have "disk w1 = disk w" using NamedTemporaryFile_Inl by blast
      with Some True tmp Inl show ?thesis by (simp add: analyze_image_def)
    next
      case (Inr temp_path)
      with tmp have f: "\<not> exists (disk w) temp_path" "disk w1 = (disk w)(temp_path \<mapsto> [])"
        using NamedTemporaryFile_Inr by blast+
      obtain outcome w3 where
        t: "analyze_image_try env (save f temp_path w1) f temp_path = (outcome, w3)"
        by force
      then have "disk w3 = disk (save f temp_path w1)" by (rule analyze_image_try_disk)
      then have "disk (unlink_if_exists temp_path w3) = disk w"
        using f by (simp add: disk_unlink_if_exists save_def) (auto simp: exists_def)
      with Some True tmp Inr t show ?thesis
        by (simp add: analyze_image_def Let_def split: sum.splits)
    qed
  qed
qed

lemma remove_background_keeps:
  "remove_background env fs i out = (r, fs') \<Longrightarrow> exists fs p \<Longrightarrow> exists fs' p"
  by (auto simp: remove_background_def exists_def split: if_splits sum.splits)

lemma remove_background_writes_only_output:
  "remove_background env fs i out = (r, fs') \<Longrightarrow> p \<noteq> out \<Longrightarrow> fs' p = fs p"
  by (auto simp: remove_background_def split: if_splits sum.splits)

lemma remove_bg_try_keeps:
  "remove_bg_try env w file i out = (outcome, w') \<Longrightarrow> exists (disk w) p \<Longrightarrow>
   exists (disk w') p"
proof -
  assume t: "remove_bg_try env w file i out = (outcome, w')" and e: "exists (disk w) p"
  let ?w3 = "record_call (RemoveBackground i out) (record_call (IsValidImage i) (save file i w))"
  obtain r d where rb: "remove_background env (disk ?w3) i out = (r, d)" by force
  have e3: "exists (disk ?w3) p" using e by (simp add: record_call_def save_def exists_def)
  then have "exists d p" using rb remove_background_keeps by blast
  with t e3 rb show ?thesis
    by (auto simp: remove_bg_try_def Let_def record_call_def save_def
             split: sum.splits if_splits)
qed

text \<open>
  \<open>remove_bg\<close> creates two temporary files and its \<open>finally\<close> clause unlinks the input
  one only: whenever both have been created, the output one still exists when the handler
  returns, whatever the outcome.
\<close>

lemma remove_bg_output_temp_stays:
  "request_files request ''image'' = Some file \<Longrightarrow> allowed_file (filename file) = Inr True \<Longrightarrow>
   NamedTemporaryFile w ''.jpg'' = (Inr input_temp, w1) \<Longrightarrow>
   NamedTemporaryFile w1 ''.png'' = (Inr output_temp, w2) \<Longrightarrow>
   \<not> exists (disk w) output_temp \<and>
   exists (disk (snd (remove_bg env w request))) output_temp \<and>
   \<not> exists (disk (snd (remove_bg env w request))) input_temp"
proof -
  assume rq: "request_files request ''image'' = Some file"
    and al: "allowed_file (filename file) = Inr True"
    and t1: "NamedTemporaryFile w ''.jpg'' = (Inr input_temp, w1)"
    and t2: "NamedTemporaryFile w1 ''.png'' = (Inr output_temp, w2)"
  from al have ne: "filename file \<noteq> []" by (rule allowed_file_True_nonempty)
  note f1 = NamedTemporaryFile_Inr [OF t1] and f2 = NamedTemporaryFile_Inr [OF t2]
  have neq: "input_temp \<noteq> output_temp" using f1 f2 by (auto simp: exists_def)
  have fresh: "\<not> exists (disk w) output_temp" using f1 f2 neq by (auto simp: exists_def)
  have e2: "exists (disk w2) output_temp" using f2 by (simp add: exists_def)
  obtain outcome w3 where t: "remove_bg_try env w2 file input_temp output_temp = (outcome, w3)"
    by force
  then have e3: "exists (disk w3) output_temp" using e2 by (rule remove_bg_try_keeps)
  have r: "snd (remove_bg env w request) = unlink_if_exists input_temp w3"
    using rq al ne t1 t2 t by (simp add: remove_bg_def Let_def split: sum.splits)
  have "exists (disk (unlink_if_exists input_temp w3)) output_temp"
    using e3 neq by (simp add: disk_unlink_if_exists exists_def)
  moreover have "\<not> exists (disk (unlink_if_exists input_temp w3)) input_temp"
    by (simp add: disk_unlink_if_exists exists_def)
  ultimately show ?thesis using fresh r by simp
qed

lemma show_background_removal_try_disk:
  "show_background_removal_try env w file i out = (outcome, w') \<Longrightarrow> p \<noteq> i \<Longrightarrow> p \<noteq> out \<Longrightarrow>
   disk w' p = disk w p"
proof -
  assume t: "show_background_removal_try env w file i out = (outcome, w')"
    and pi: "p \<noteq> i" and po: "p \<noteq> out"
  let ?w2 = "record_call (RemoveBackground i out) (save file i w)"
  obtain r d where rb: "remove_background env (disk ?w2) i out = (r, d)" by force
  then have "d p = disk ?w2 p" using po by (rule remove_background_writes_only_output)
  then have "d p = disk w p" using pi by (simp add: record_call_def save_def)
  with t rb show ?thesis
    by (auto simp: show_background_removal_try_def Let_def split: sum.splits)
qed

text \<open>
  \<open>show_background_removal\<close> unlinks both temporary files: once both have been created,
  the file system after the handler is the one before it.
\<close>

lemma show_background_removal_staged:
  "NamedTemporaryFile w ''.jpg'' = (Inr i, w1) \<Longrightarrow>
   NamedTemporaryFile w1 ''.png'' = (Inr out, w2) \<Longrightarrow>
   show_background_removal_try env w2 f i out = (outcome, w3) \<Longrightarrow>
   disk (unlink_if_exists out (unlink_if_exists i w3)) = disk w"
proof -
  assume t1: "NamedTemporaryFile w ''.jpg'' = (Inr i, w1)"
    and t2: "NamedTemporaryFile w1 ''.png'' = (Inr out, w2)"
    and t: "show_background_removal_try env w2 f i out = (outcome, w3)"
  note f1 = NamedTemporaryFile_Inr [OF t1] and f2 = NamedTemporaryFile_Inr [OF t2]
  have "((disk w3)(i := None, out := None)) p = disk w p" for p
  proof (cases "p = i \<or> p = out")
    case True
    then show ?thesis using f1 f2 by (auto simp: exists_def split: if_splits)
  next
    case False
    then have "disk w3 p = disk w2 p" using t show_background_removal_try_disk by blast
    with False f1 f2 show ?thesis by simp
  qed
  then show ?thesis by (auto simp: disk_unlink_if_exists)
qed

lemma show_background_removal_cleans_up:
  "NamedTemporaryFile w ''.jpg'' = (Inr i, w1) \<Longrightarrow>
   NamedTemporaryFile w1 ''.png'' = (Inr out, w2) \<Longrightarrow>
   disk (snd (show_background_removal env available w uploaded_file pressed)) = disk w"
proof -
  assume t1: "NamedTemporaryFile w ''.jpg'' = (Inr i, w1)"
    and t2: "NamedTemporaryFile w1 ''.png'' = (Inr out, w2)"
  obtain outcome w3 where
    t: "show_background_removal_try env w2 uploaded_file i out = (outcome, w3)" by force
  have "disk (unlink_if_exists out (unlink_if_exists i w3)) = disk w"
    using t1 t2 t by (rule show_background_removal_staged)
  then show ?thesis
    using t1 t2 t
    by (simp add: show_background_removal_def Let_def split: sum.splits)
qed

text \<open>
  Claim C1. Every temporary file created for a request is deleted before the handler
  exits. This fails for \<open>remove_bg\<close>: on an upload named \<open>photo.jpg\<close> whose bytes are
  not an image, the handler answers \<open>File is not a valid image\<close>, the input temporary
  file is gone, and the output temporary file, which did not exist before the request,
  still exists afterwards.
\<close>

theorem remove_bg_leaves_output_temp:
  "fst (remove_bg sample_env sample_world corrupt_request) =
     (ErrorJson ''File is not a valid image'' None, 400) \<and>
   \<not> exists (disk sample_world) ''/tmp/tmpb.png'' \<and>
   exists (disk (snd (remove_bg sample_env sample_world corrupt_request))) ''/tmp/tmpb.png'' \<and>
   \<not> exists (disk (snd (remove_bg sample_env sample_world corrupt_request))) ''/tmp/tmpa.jpg''"
  by (simp add: remove_bg_def remove_bg_try_def NamedTemporaryFile_def save_def unlink_def
        unlink_if_exists_def record_call_def sample_env_def sample_fs_def sample_world_def
        corrupt_request_def is_valid_image_def Image_open_def read_file_def exists_def
        and_then_def try_except_def allowed_photo_jpg Let_def)

text \<open>
  The same on the success path of \<open>remove_bg\<close>: the answer is the attachment, and the
  output temporary file is still there when the handler returns.
\<close>

lemma remove_bg_success_keeps_output_temp:
  "fst (remove_bg sample_env sample_world good_request) =
     (Attachment ''/tmp/tmpb.png'' ''no_bg_photo.jpg.png'' ''image/png'', 200) \<and>
   exists (disk (snd (remove_bg sample_env sample_world good_request))) ''/tmp/tmpb.png'' \<and>
   \<not> exists (disk (snd (remove_bg sample_env sample_world good_request))) ''/tmp/tmpa.jpg''"
  by (simp add: remove_bg_def remove_bg_try_def NamedTemporaryFile_def save_def unlink_def
        unlink_if_exists_def record_call_def send_file_def sample_env_def sample_fs_def
        sample_world_def good_request_def is_valid_image_def Image_open_def read_file_def
        exists_def and_then_def try_except_def remove_background_def allowed_photo_jpg Let_def)

text \<open>
  The UI on the same upload: the processed picture is shown and offered for download, and
  the file system is back to what it was.
\<close>

lemma show_background_removal_sample:
  "fst (show_background_removal sample_env True sample_world
          \<lparr> filename = ''photo.jpg'', content = [1, 4, 4, 7] \<rparr> True) =
     [St_image \<lparr> img_size = (4, 4), img_data = [1, 4, 4, 7] \<rparr> ''photo.jpg'',
      St_image \<lparr> img_size = (4, 4), img_data = [1, 4, 4, 7, 255] \<rparr> ''Background Removed'',
      St_download_button [1, 4, 4, 7, 255] ''no_bg_photo.png'',
      St_success ''Background removal completed!''] \<and>
   disk (snd (show_background_removal sample_env True sample_world
          \<lparr> filename = ''photo.jpg'', content = [1, 4, 4, 7] \<rparr> True)) = sample_fs"
proof -
  have e: "is_valid_image_extension (Some ''photo.jpg'') = Inr True"
    using validators_agree_with_dot [of "''photo.jpg''"] allowed_photo_jpg by simp
  have tmp2: "NamedTemporaryFile
     (sample_world\<lparr> disk := (disk sample_world)(''/tmp/tmpa.jpg'' \<mapsto> []),
                    tmp_names := [''/tmp/tmpb'', ''/tmp/tmpc''] \<rparr>) ''.png'' =
     (Inr ''/tmp/tmpb.png'',
      sample_world\<lparr> disk := (disk sample_world)(''/tmp/tmpa.jpg'' \<mapsto> [], ''/tmp/tmpb.png'' \<mapsto> []),
                    tmp_names := [''/tmp/tmpc''] \<rparr>)"
    by (simp add: NamedTemporaryFile_def sample_world_def sample_fs_def exists_def)
  have d: "disk (snd (show_background_removal sample_env True sample_world
          \<lparr> filename = ''photo.jpg'', content = [1, 4, 4, 7] \<rparr> True)) = disk sample_world"
    using sample_tmp_jpg tmp2 by (rule show_background_removal_cleans_up)
  have f: "fst (show_background_removal sample_env True sample_world
          \<lparr> filename = ''photo.jpg'', content = [1, 4, 4, 7] \<rparr> True) =
     [St_image \<lparr> img_size = (4, 4), img_data = [1, 4, 4, 7] \<rparr> ''photo.jpg'',
      St_image \<lparr> img_size = (4, 4), img_data = [1, 4, 4, 7, 255] \<rparr> ''Background Removed'',
      St_download_button [1, 4, 4, 7, 255] ''no_bg_photo.png'',
      St_success ''Background removal completed!'']"
    by (simp add: show_background_removal_def show_background_removal_try_def e
          NamedTemporaryFile_def save_def unlink_def
          unlink_if_exists_def record_call_def sample_env_def sample_fs_def
          sample_world_def is_valid_image_file_def Image_open_def read_file_def
          exists_def and_then_def try_except_def remove_background_def py_index_def Let_def)
  show ?thesis using d f by (simp add: sample_world_def)
qed

end
